theory Spec2Isabelle
  imports Main
begin

section \<open>Values, files and the world the handlers run in\<close>

text \<open>
  The course catalog application (\<^verbatim>\<open>app.py\<close>) keeps its records in one JSON file and
  serves five routes. The values that \<^verbatim>\<open>json.load\<close> returns are modelled by the
  datatype \<open>json\<close>: a Python dict is an association list (keys in insertion order,
  each key once, looked up with \<open>map_of\<close>), a Python list is a HOL list. A \<open>char\<close> stands for one
  code point below 256. Numbers are integers; no handler looks inside a number.
\<close>

datatype json =
    JNull
  | JBool bool
  | JNum int
  | JStr string
  | JArr "json list"
  | JObj "(string \<times> json) list"

datatype exn =
    OSError
  | UnicodeDecodeError
  | JSONDecodeError
  | AttributeError
  | KeyError
  | TypeError
  | TemplateNotFound

text \<open>
  The backing file \<^verbatim>\<open>course_catalog.json\<close>, by what it holds: absent; bytes that are
  not text, so that reading them inside \<^verbatim>\<open>json.load\<close> raises (\<open>Unreadable\<close>); text
  that is not JSON, the empty and the cut-off file among them, so that parsing raises
  (\<open>Malformed\<close>); or the text of a JSON value. The text itself is not modelled:
  \<open>Content j\<close> is a file from which \<^verbatim>\<open>json.load\<close> returns \<open>j\<close>, and a completed
  \<^verbatim>\<open>json.dump\<close> of \<open>j\<close> leaves \<open>Content j\<close>. All three failures are properties of
  the bytes in the file, which a completed write replaces; access rights for reading are
  not modelled, a file that is present can be opened for reading.
\<close>

datatype file_state = Absent | Unreadable | Malformed | Content json

text \<open>
  What the storage does with
  \<^verbatim>\<open>with open(COURSE_FILE, 'w') as file: json.dump(courses, file, indent=4)\<close>:
  \<^verbatim>\<open>open\<close> raises and the file stays as it was; \<^verbatim>\<open>open\<close> succeeds, which empties
  the file, and the dump or the closing flush raises, which leaves a cut-off text; or the
  write completes.
\<close>

datatype write_outcome = OpenRaises | DumpRaises | WriteCompletes

datatype level = Info | Warning | Error

datatype response =
    Rendered string "(string \<times> json) list"
  | Redirect string

datatype http_method = GET | HEAD | POST

record request =
  req_method :: http_method
  form :: "(string \<times> string) list"

text \<open>
  Everything a handler can read or change. \<open>on_write\<close> says what a write of the
  file will do, \<open>templates\<close> lists the templates that
  \<^verbatim>\<open>render_template\<close> can find, \<open>flashes\<close> is the queue of notices (message, category),
  \<open>logged\<close> the log (level and the \<^verbatim>\<open>message\<close> field of each entry; the other fields
  of an entry and the tracing spans are left out), and \<open>opens_for_write\<close> counts the
  calls of \<^verbatim>\<open>open(COURSE_FILE, 'w')\<close>.
\<close>

record world =
  course_file :: file_state
  on_write :: write_outcome
  templates :: "string list"
  flashes :: "(string \<times> string) list"
  logged :: "(level \<times> string) list"
  opens_for_write :: nat

text \<open>The storage accepts a write: it opens the file and the dump completes.\<close>

definition writable :: "world \<Rightarrow> bool" where
  "writable s = (on_write s = WriteCompletes)"

text \<open>
  A Python computation either returns a value or raises; in both cases the effects made
  so far stay.
\<close>

type_synonym 'a py = "world \<Rightarrow> (exn + 'a) \<times> world"

definition py_return :: "'a \<Rightarrow> 'a py" where
  "py_return x = (\<lambda>s. (Inr x, s))"

definition py_bind :: "'a py \<Rightarrow> ('a \<Rightarrow> 'b py) \<Rightarrow> 'b py" where
  "py_bind m f = (\<lambda>s. case m s of (Inl e, s') \<Rightarrow> (Inl e, s') | (Inr x, s') \<Rightarrow> f x s')"

definition py_then :: "'a py \<Rightarrow> 'b py \<Rightarrow> 'b py" where
  "py_then m k = py_bind m (\<lambda>_. k)"

definition py_lift :: "exn + 'a \<Rightarrow> 'a py" where
  "py_lift r = (\<lambda>s. (r, s))"

text \<open>\<^verbatim>\<open>try: m  except Exception as e: h(e)\<close>\<close>

definition py_try :: "'a py \<Rightarrow> (exn \<Rightarrow> 'a py) \<Rightarrow> 'a py" where
  "py_try m h = (\<lambda>s. case m s of (Inl e, s') \<Rightarrow> h e s' | (Inr x, s') \<Rightarrow> (Inr x, s'))"

section \<open>Python operations on loaded values\<close>

text \<open>\<^verbatim>\<open>str.strip()\<close>: the white space of Python below code point 256.\<close>

definition isspace :: "char \<Rightarrow> bool" where
  "isspace c =
     (let n = (of_char c :: nat)
      in (9 \<le> n \<and> n \<le> 13) \<or> (28 \<le> n \<and> n \<le> 32) \<or> n = 133 \<or> n = 160)"

definition strip :: "string \<Rightarrow> string" where
  "strip s = rev (dropWhile isspace (rev (dropWhile isspace s)))"

text \<open>\<^verbatim>\<open>v[key]\<close> with a string key: only a dict accepts it.\<close>

fun subscript :: "json \<Rightarrow> string \<Rightarrow> exn + json" where
  "subscript (JObj kvs) k = (case map_of kvs k of None \<Rightarrow> Inl KeyError | Some v \<Rightarrow> Inr v)"
| "subscript _ k = Inl TypeError"

text \<open>\<^verbatim>\<open>v.get(key)\<close>: a dict method; the default is \<^verbatim>\<open>None\<close>.\<close>

fun dict_get :: "json \<Rightarrow> string \<Rightarrow> exn + json" where
  "dict_get (JObj kvs) k = (case map_of kvs k of None \<Rightarrow> Inr JNull | Some v \<Rightarrow> Inr v)"
| "dict_get _ k = Inl AttributeError"

text \<open>
  \<^verbatim>\<open>iter(v)\<close>: a list gives its elements, a dict its keys, a string its characters.
\<close>

fun py_iter :: "json \<Rightarrow> exn + json list" where
  "py_iter (JArr xs) = Inr xs"
| "py_iter (JObj kvs) = Inr (map (\<lambda>kv. JStr (fst kv)) kvs)"
| "py_iter (JStr s) = Inr (map (\<lambda>c. JStr [c]) s)"
| "py_iter _ = Inl TypeError"

fun py_len :: "json \<Rightarrow> exn + nat" where
  "py_len (JArr xs) = Inr (length xs)"
| "py_len (JObj kvs) = Inr (length kvs)"
| "py_len (JStr s) = Inr (length s)"
| "py_len _ = Inl TypeError"

text \<open>\<^verbatim>\<open>v.append(x)\<close>: a list method.\<close>

fun py_append :: "json \<Rightarrow> json \<Rightarrow> exn + json" where
  "py_append (JArr xs) x = Inr (JArr (xs @ [x]))"
| "py_append _ x = Inl AttributeError"

fun truthy :: "json \<Rightarrow> bool" where
  "truthy JNull = False"
| "truthy (JBool b) = b"
| "truthy (JNum n) = (n \<noteq> 0)"
| "truthy (JStr s) = (s \<noteq> [])"
| "truthy (JArr xs) = (xs \<noteq> [])"
| "truthy (JObj kvs) = (kvs \<noteq> [])"

text \<open>
  \<^verbatim>\<open>next((course for course in courses if course['code'] == code), None)\<close>: the
  generator is lazy, so the search stops at the first match and never touches the
  records after it.
\<close>

fun next_course :: "json list \<Rightarrow> string \<Rightarrow> exn + json option" where
  "next_course [] code = Inr None"
| "next_course (course # rest) code =
     (case subscript course ''code'' of
        Inl e \<Rightarrow> Inl e
      | Inr v \<Rightarrow> if v = JStr code then Inr (Some course) else next_course rest code)"

text \<open>
  \<^verbatim>\<open>[course for course in courses if course['code'] != code]\<close>: the comprehension is
  eager, every record is subscripted.
\<close>

fun updated_courses :: "json list \<Rightarrow> string \<Rightarrow> exn + json list" where
  "updated_courses [] code = Inr []"
| "updated_courses (course # rest) code =
     (case subscript course ''code'' of
        Inl e \<Rightarrow> Inl e
      | Inr v \<Rightarrow>
          (case updated_courses rest code of
             Inl e \<Rightarrow> Inl e
           | Inr kept \<Rightarrow> Inr (if v \<noteq> JStr code then course # kept else kept)))"

section \<open>Collaborators: logging, notices, templates, the file\<close>

definition logger :: "level \<Rightarrow> string \<Rightarrow> unit py" where
  "logger lvl msg = (\<lambda>s. (Inr (), s\<lparr>logged := logged s @ [(lvl, msg)]\<rparr>))"

definition flash :: "string \<Rightarrow> string \<Rightarrow> unit py" where
  "flash msg category = (\<lambda>s. (Inr (), s\<lparr>flashes := flashes s @ [(msg, category)]\<rparr>))"

definition render_template :: "string \<Rightarrow> (string \<times> json) list \<Rightarrow> response py" where
  "render_template name ctx =
     (\<lambda>s. if name \<in> set (templates s) then (Inr (Rendered name ctx), s)
          else (Inl TemplateNotFound, s))"

text \<open>\<^verbatim>\<open>redirect(url_for('course_catalog'))\<close>: the route of \<^verbatim>\<open>course_catalog\<close>.\<close>

definition redirect_catalog :: response where
  "redirect_catalog = Redirect ''/catalog''"

text \<open>The status Flask gives to a view's return value.\<close>

fun status :: "response \<Rightarrow> nat" where
  "status (Rendered name ctx) = 200"
| "status (Redirect url) = 302"

text \<open>\<^verbatim>\<open>with open(COURSE_FILE, 'r') as file: return json.load(file)\<close>\<close>

definition read_file :: "json py" where
  "read_file =
     (\<lambda>s. case course_file s of
             Absent \<Rightarrow> (Inl OSError, s)
           | Unreadable \<Rightarrow> (Inl UnicodeDecodeError, s)
           | Malformed \<Rightarrow> (Inl JSONDecodeError, s)
           | Content j \<Rightarrow> (Inr j, s))"

text \<open>\<^verbatim>\<open>with open(COURSE_FILE, 'w') as file: json.dump(courses, file, indent=4)\<close>\<close>

definition write_file :: "json \<Rightarrow> unit py" where
  "write_file courses =
     (\<lambda>s. let s' = s\<lparr>opens_for_write := Suc (opens_for_write s)\<rparr>
          in case on_write s of
               OpenRaises \<Rightarrow> (Inl OSError, s')
             | DumpRaises \<Rightarrow> (Inl OSError, s'\<lparr>course_file := Malformed\<rparr>)
             | WriteCompletes \<Rightarrow> (Inr (), s'\<lparr>course_file := Content courses\<rparr>))"

section \<open>Utility functions\<close>

definition load_courses :: "json py" where
  "load_courses =
     py_try
       (\<lambda>s. if course_file s = Absent
            then py_then
                   (logger Warning
                      ''Unable to find Course file course_catalog.json. Returning empty list.'')
                   (py_return (JArr [])) s
            else read_file s)
       (\<lambda>e. py_then (logger Error ''There is an error loading the courses!'')
                     (py_return (JArr [])))"

definition save_courses_to_file :: "json \<Rightarrow> unit py" where
  "save_courses_to_file courses =
     py_try
       (py_then (write_file courses)
                (logger Info ''Courses have been saved to file successfully.''))
       (\<lambda>e. logger Error ''Error! Unable to save courses to file'')"

definition save_courses :: "json \<Rightarrow> unit py" where
  "save_courses data =
     py_try
       (py_bind load_courses (\<lambda>courses.
        py_bind (py_lift (py_append courses data)) (\<lambda>courses'.
        py_then (save_courses_to_file courses')
        (py_bind (py_lift (dict_get data ''name'')) (\<lambda>course_name.
         py_bind (py_lift (dict_get data ''code'')) (\<lambda>course_code.
         logger Info ''Course added successfully.''))))))
       (\<lambda>e. logger Error ''Error adding new course'')"

section \<open>Routes\<close>

text \<open>A view returns a response, or \<^verbatim>\<open>None\<close> when it falls off its end.\<close>

definition index :: "response option py" where
  "index =
     py_then (logger Info ''Homepage accessed.'')
       (py_bind (render_template ''index.html'' []) (\<lambda>page. py_return (Some page)))"

definition course_catalog_try :: "response option py" where
  "course_catalog_try =
     py_bind load_courses (\<lambda>courses.
     py_bind (py_lift (py_len courses)) (\<lambda>course_count.
     py_bind (py_lift (py_len courses)) (\<lambda>course_count'.
     py_then (logger Info ''Catalog page accessed.'')
     (py_bind (render_template ''course_catalog.html'' [(''courses'', courses)]) (\<lambda>page.
      py_return (Some page))))))"

definition course_catalog :: "response option py" where
  "course_catalog =
     py_try course_catalog_try
       (\<lambda>e. py_then (logger Error ''Error rendering catalog page'') (py_return None))"

definition not_found_notice :: "string \<Rightarrow> string" where
  "not_found_notice code = ''No course found with code '' @ [CHR 0x27] @ code @ [CHR 0x27] @ ''.''"

definition course_not_found :: "string \<Rightarrow> response option py" where
  "course_not_found code =
     py_then (logger Error (''Course not found: '' @ code))
     (py_then (flash (not_found_notice code) ''error'')
     (py_return (Some redirect_catalog)))"

definition course_details_try :: "string \<Rightarrow> response option py" where
  "course_details_try code =
     py_bind load_courses (\<lambda>courses.
     py_bind (py_lift (py_iter courses)) (\<lambda>items.
     py_bind (py_lift (next_course items code)) (\<lambda>found.
     case found of
       None \<Rightarrow> course_not_found code
     | Some course \<Rightarrow>
         if \<not> truthy course then course_not_found code
         else py_bind (py_lift (dict_get course ''name'')) (\<lambda>course_name.
              py_bind (py_lift (dict_get course ''code'')) (\<lambda>course_code.
              py_then (logger Info ''Course details rendered.'')
              (py_bind (render_template ''course_details.html'' [(''course'', course)]) (\<lambda>page.
               py_return (Some page))))))))"

definition course_details :: "string \<Rightarrow> response option py" where
  "course_details code =
     py_try (course_details_try code)
       (\<lambda>e. py_then (logger Error ''Error displaying course details'') (py_return None))"

text \<open>\<^verbatim>\<open>request.form.get(key).strip()\<close>: \<^verbatim>\<open>get\<close> gives \<^verbatim>\<open>None\<close> for a missing key.\<close>

definition form_get_strip :: "request \<Rightarrow> string \<Rightarrow> exn + string" where
  "form_get_strip req key =
     (case map_of (form req) key of None \<Rightarrow> Inl AttributeError | Some v \<Rightarrow> Inr (strip v))"

definition new_course :: "string \<Rightarrow> string \<Rightarrow> string \<Rightarrow> string \<Rightarrow> json" where
  "new_course course_name course_code course_instructor course_semester =
     JObj [(''name'', JStr course_name), (''code'', JStr course_code),
           (''instructor'', JStr course_instructor), (''semester'', JStr course_semester)]"

definition add_course_try :: "request \<Rightarrow> response option py" where
  "add_course_try req =
     (if req_method req = POST then
        py_bind (py_lift (form_get_strip req ''name'')) (\<lambda>course_name.
        py_bind (py_lift (form_get_strip req ''code'')) (\<lambda>course_code.
        py_bind (py_lift (form_get_strip req ''instructor'')) (\<lambda>course_instructor.
        py_bind (py_lift (form_get_strip req ''semester'')) (\<lambda>course_semester.
        if course_name = [] \<or> course_code = [] \<or> course_instructor = []
        then py_then (flash ''Fields marked with * are the required fields.'' ''error'')
             (py_then (logger Error ''Failed to add course. Missing required fields.'')
             (py_bind (render_template ''add_course.html'' []) (\<lambda>page.
              py_return (Some page))))
        else py_then
               (save_courses
                  (new_course course_name course_code course_instructor course_semester))
             (py_then (flash ''Course added successfully!'' ''success'')
             (py_then (logger Info ''New course added.'')
             (py_return (Some redirect_catalog))))))))
      else py_then (logger Info ''Add course form displayed.'')
           (py_bind (render_template ''add_course.html'' []) (\<lambda>page.
            py_return (Some page))))"

definition add_course :: "request \<Rightarrow> response option py" where
  "add_course req =
     py_try (add_course_try req)
       (\<lambda>e. py_then (logger Error ''Error in add_course_page route'') (py_return None))"

definition delete_course_try :: "string \<Rightarrow> response option py" where
  "delete_course_try code =
     py_bind load_courses (\<lambda>courses.
     py_bind (py_lift (py_iter courses)) (\<lambda>items.
     py_bind (py_lift (updated_courses items code)) (\<lambda>updated.
     py_bind (py_lift (py_len courses)) (\<lambda>n.
     py_then
       (if n = length updated
        then py_then (logger Error (''Course not found for deletion: '' @ code))
                     (flash (not_found_notice code) ''error'')
        else py_then (save_courses_to_file (JArr updated))
             (py_then (flash ''Course deleted successfully!'' ''success'')
                      (logger Info ''Course deleted successfully.'')))
       (py_return (Some redirect_catalog))))))"

definition delete_course :: "string \<Rightarrow> response option py" where
  "delete_course code =
     py_try (delete_course_try code)
       (\<lambda>e. py_then (logger Error ''Error in delete_course_action route'') (py_return None))"

section \<open>Vocabulary of the properties\<close>

text \<open>
  A stored record has a code when \<^verbatim>\<open>record['code']\<close> returns, and its code is \<open>c\<close>
  when that value is the string \<open>c\<close> (the comparison the handlers make). A record lacks
  the key when it is a dict without \<^verbatim>\<open>'code'\<close>.
\<close>

definition has_code :: "json \<Rightarrow> bool" where
  "has_code r = (case subscript r ''code'' of Inl e \<Rightarrow> False | Inr v \<Rightarrow> True)"

definition code_is :: "string \<Rightarrow> json \<Rightarrow> bool" where
  "code_is c r = (subscript r ''code'' = Inr (JStr c))"

fun lacks_code :: "json \<Rightarrow> bool" where
  "lacks_code (JObj kvs) = (map_of kvs ''code'' = None)"
| "lacks_code _ = False"

text \<open>Sample records, a sample world holding a catalog, and a POST request.\<close>

definition algorithms :: json where
  "algorithms = new_course ''Algorithms'' ''CS301'' ''Dr. A'' ''Fall''"

definition networks :: json where
  "networks = new_course ''Networks'' ''CS433'' ''Dr. B'' ''Spring''"

definition algorithms_lab :: json where
  "algorithms_lab = new_course ''Algorithms Lab'' ''CS301'' ''Dr. C'' []"

definition nameless :: json where
  "nameless = JObj [(''name'', JStr ''Seminar'')]"

definition stored :: "json list \<Rightarrow> world" where
  "stored catalog =
     \<lparr>course_file = Content (JArr catalog), on_write = WriteCompletes,
      templates = [''index.html'', ''course_catalog.html'', ''course_details.html'',
                   ''add_course.html''],
      flashes = [], logged = [], opens_for_write = 0\<rparr>"

definition post :: "(string \<times> string) list \<Rightarrow> request" where
  "post entries = \<lparr>req_method = POST, form = entries\<rparr>"

section \<open>The utility functions, step by step\<close>

lemmas py_defs = py_return_def py_bind_def py_then_def py_lift_def py_try_def
  logger_def flash_def

lemmas demo_defs = stored_def algorithms_def networks_def algorithms_lab_def nameless_def
  new_course_def has_code_def code_is_def

lemma load_courses_eq:
  "load_courses s =
     (Inr (case course_file s of Content j \<Rightarrow> j | _ \<Rightarrow> JArr []),
      s\<lparr>logged := logged s @
          (case course_file s of
             Absent \<Rightarrow> [(Warning, ''Unable to find Course file course_catalog.json. Returning empty list.'')]
           | Content j \<Rightarrow> []
           | _ \<Rightarrow> [(Error, ''There is an error loading the courses!'')])\<rparr>)"
  by (cases "course_file s") (simp_all add: load_courses_def read_file_def py_defs)

lemma loaded_array:
  assumes "fst (load_courses s) = Inr (JArr L)"
  shows "load_courses s = (Inr (JArr L), snd (load_courses s))"
    and "course_file (snd (load_courses s)) = course_file s"
    and "on_write (snd (load_courses s)) = on_write s"
    and "flashes (snd (load_courses s)) = flashes s"
    and "opens_for_write (snd (load_courses s)) = opens_for_write s"
    and "templates (snd (load_courses s)) = templates s"
  using assms by (simp_all add: load_courses_eq)

lemma save_courses_to_file_eq:
  "save_courses_to_file j s =
     (Inr (),
      s\<lparr>opens_for_write := Suc (opens_for_write s),
        course_file :=
          (case on_write s of OpenRaises \<Rightarrow> course_file s | DumpRaises \<Rightarrow> Malformed
           | WriteCompletes \<Rightarrow> Content j),
        logged := logged s @
          [if writable s then (Info, ''Courses have been saved to file successfully.'')
           else (Error, ''Error! Unable to save courses to file'')]\<rparr>)"
  by (cases "on_write s")
     (simp_all add: save_courses_to_file_def write_file_def writable_def py_defs Let_def)

lemma save_courses_returns:
  "fst (save_courses r s) = Inr () \<and> flashes (snd (save_courses r s)) = flashes s"
  by (cases "py_append (case course_file s of Content j \<Rightarrow> j | _ \<Rightarrow> JArr []) r";
      cases "dict_get r ''name''"; cases "dict_get r ''code''")
     (simp_all add: save_courses_def py_defs load_courses_eq save_courses_to_file_eq)

lemma save_courses_array:
  assumes "fst (load_courses s) = Inr (JArr L)"
  shows "fst (save_courses r s) = Inr () \<and>
         (writable s \<longrightarrow>
            course_file (snd (save_courses r s)) = Content (JArr (L @ [r]))) \<and>
         opens_for_write (snd (save_courses r s)) = Suc (opens_for_write s) \<and>
         flashes (snd (save_courses r s)) = flashes s \<and>
         on_write (snd (save_courses r s)) = on_write s \<and>
         templates (snd (save_courses r s)) = templates s"
proof -
  obtain s1 where l: "load_courses s = (Inr (JArr L), s1)"
    using assms by (cases "load_courses s") simp
  have f: "course_file s1 = course_file s" "on_write s1 = on_write s"
     "flashes s1 = flashes s" "opens_for_write s1 = opens_for_write s" "templates s1 = templates s"
    using loaded_array[OF assms] l by simp_all
  show ?thesis
    using l f
    by (cases "dict_get r ''name''"; cases "dict_get r ''code''")
       (simp_all add: save_courses_def py_defs save_courses_to_file_eq writable_def)
qed

subsection \<open>The comprehension of the delete handler\<close>

lemma updated_courses_filter:
  "\<forall>r\<in>set L. has_code r \<Longrightarrow> updated_courses L c = Inr (filter (\<lambda>r. \<not> code_is c r) L)"
  by (induction L) (auto simp: has_code_def code_is_def split: sum.splits)

lemma length_filter_eq_iff:
  "(length L = length (filter P L)) = (\<forall>x\<in>set L. P x)"
  by (metis filter_True length_filter_less less_irrefl_nat filter_id_conv)

lemma delete_course_well_formed:
  assumes "fst (load_courses s) = Inr (JArr L)" and "\<forall>r\<in>set L. has_code r"
  shows "delete_course c s =
     (Inr (Some redirect_catalog),
      if \<exists>r\<in>set L. code_is c r
      then (snd (save_courses_to_file (JArr (filter (\<lambda>r. \<not> code_is c r) L)) (snd (load_courses s))))
             \<lparr>flashes := flashes s @ [(''Course deleted successfully!'', ''success'')],
              logged := logged (snd (save_courses_to_file (JArr (filter (\<lambda>r. \<not> code_is c r) L)) (snd (load_courses s)))) @ [(Info, ''Course deleted successfully.'')]\<rparr>
      else (snd (load_courses s))
             \<lparr>logged := logged (snd (load_courses s)) @ [(Error, ''Course not found for deletion: '' @ c)],
              flashes := flashes s @ [(not_found_notice c, ''error'')]\<rparr>)"
proof -
  obtain s1 where l: "load_courses s = (Inr (JArr L), s1)"
    using assms(1) by (cases "load_courses s") simp
  have u: "updated_courses L c = Inr (filter (\<lambda>r. \<not> code_is c r) L)"
    using assms(2) by (rule updated_courses_filter)
  have f: "flashes s1 = flashes s" using loaded_array(4)[OF assms(1)] l by simp
  show ?thesis
  proof (cases "\<exists>r\<in>set L. code_is c r")
    case True
    then have "length L \<noteq> length (filter (\<lambda>r. \<not> code_is c r) L)"
      by (simp add: length_filter_eq_iff)
    with True l u f show ?thesis
      by (simp add: delete_course_def delete_course_try_def py_defs save_courses_to_file_eq)
  next
    case False
    then have "length L = length (filter (\<lambda>r. \<not> code_is c r) L)"
      by (simp add: length_filter_eq_iff)
    with False l u f show ?thesis
      by (simp add: delete_course_def delete_course_try_def py_defs)
  qed
qed

subsection \<open>The three outcomes of a POST to the add handler\<close>

lemma add_course_missing_key:
  assumes "req_method req = POST"
    and "map_of (form req) ''name'' = None \<or> map_of (form req) ''code'' = None \<or>
         map_of (form req) ''instructor'' = None \<or> map_of (form req) ''semester'' = None"
  shows "add_course req s =
           (Inr None, s\<lparr>logged := logged s @ [(Error, ''Error in add_course_page route'')]\<rparr>)"
  using assms
  by (cases "map_of (form req) ''name''"; cases "map_of (form req) ''code''";
      cases "map_of (form req) ''instructor''"; cases "map_of (form req) ''semester''")
     (simp_all add: add_course_def add_course_try_def form_get_strip_def py_defs)

lemma add_course_invalid:
  assumes "req_method req = POST"
    and "map_of (form req) ''name'' = Some nv" and "map_of (form req) ''code'' = Some cv"
    and "map_of (form req) ''instructor'' = Some iv" and "map_of (form req) ''semester'' = Some sv"
    and "strip nv = [] \<or> strip cv = [] \<or> strip iv = []"
    and "''add_course.html'' \<in> set (templates s)"
  shows "add_course req s =
           (Inr (Some (Rendered ''add_course.html'' [])),
            s\<lparr>flashes := flashes s @ [(''Fields marked with * are the required fields.'', ''error'')],
              logged := logged s @ [(Error, ''Failed to add course. Missing required fields.'')]\<rparr>)"
  using assms
  by (auto simp add: add_course_def add_course_try_def form_get_strip_def py_defs render_template_def)

lemma add_course_valid:
  assumes "req_method req = POST"
    and "map_of (form req) ''name'' = Some nv" and "map_of (form req) ''code'' = Some cv"
    and "map_of (form req) ''instructor'' = Some iv" and "map_of (form req) ''semester'' = Some sv"
    and "strip nv \<noteq> []" and "strip cv \<noteq> []" and "strip iv \<noteq> []"
  shows "add_course req s =
           (Inr (Some redirect_catalog),
            (snd (save_courses (new_course (strip nv) (strip cv) (strip iv) (strip sv)) s))
              \<lparr>flashes := flashes s @ [(''Course added successfully!'', ''success'')],
               logged := logged (snd (save_courses (new_course (strip nv) (strip cv) (strip iv) (strip sv)) s))
                           @ [(Info, ''New course added.'')]\<rparr>)"
proof -
  let ?r = "new_course (strip nv) (strip cv) (strip iv) (strip sv)"
  obtain s1 where s: "save_courses ?r s = (Inr (), s1)"
    using save_courses_returns[of ?r s] by (cases "save_courses ?r s") simp
  have f: "flashes s1 = flashes s"
    using save_courses_returns[of ?r s] s by simp
  show ?thesis
    using assms s f
    by (simp add: add_course_def add_course_try_def form_get_strip_def py_defs)
qed

subsection \<open>The search of the details handler\<close>

lemma next_course_find:
  "\<forall>r\<in>set L. has_code r \<Longrightarrow> next_course L c = Inr (find (code_is c) L)"
  by (induction L) (auto simp: has_code_def code_is_def split: sum.splits)

lemma code_is_dict:
  assumes "code_is c m"
  shows "truthy m" and "\<exists>v. dict_get m ''name'' = Inr v" and "\<exists>v. dict_get m ''code'' = Inr v"
  using assms by (cases m; auto simp: code_is_def split: option.splits)+

lemma course_details_none:
  assumes "fst (load_courses s) = Inr (JArr L)" and "next_course L c = Inr None"
  shows "course_details c s =
           (Inr (Some redirect_catalog),
            (snd (load_courses s))
              \<lparr>logged := logged (snd (load_courses s)) @ [(Error, ''Course not found: '' @ c)],
               flashes := flashes s @ [(not_found_notice c, ''error'')]\<rparr>)"
proof -
  obtain s1 where l: "load_courses s = (Inr (JArr L), s1)"
    using assms(1) by (cases "load_courses s") simp
  have f: "flashes s1 = flashes s" using loaded_array(4)[OF assms(1)] l by simp
  show ?thesis
    using l f assms(2)
    by (simp add: course_details_def course_details_try_def course_not_found_def py_defs)
qed

lemma course_details_some:
  assumes "fst (load_courses s) = Inr (JArr L)" and "next_course L c = Inr (Some m)"
    and "code_is c m" and "''course_details.html'' \<in> set (templates s)"
  shows "course_details c s =
           (Inr (Some (Rendered ''course_details.html'' [(''course'', m)])),
            (snd (load_courses s))
              \<lparr>logged := logged (snd (load_courses s)) @ [(Info, ''Course details rendered.'')]\<rparr>)"
proof -
  obtain s1 where l: "load_courses s = (Inr (JArr L), s1)"
    using assms(1) by (cases "load_courses s") simp
  have t: "templates s1 = templates s" using loaded_array(6)[OF assms(1)] l by simp
  obtain v w where g: "dict_get m ''name'' = Inr v" "dict_get m ''code'' = Inr w"
    using code_is_dict[OF assms(3)] by blast
  show ?thesis
    using l t g assms(2,4) code_is_dict(1)[OF assms(3)]
    by (simp add: course_details_def course_details_try_def py_defs render_template_def)
qed

lemma course_details_raises:
  assumes "fst (load_courses s) = Inr (JArr L)" and "next_course L c = Inl e"
  shows "course_details c s =
           (Inr None,
            (snd (load_courses s))
              \<lparr>logged := logged (snd (load_courses s)) @
                  [(Error, ''Error displaying course details'')]\<rparr>)"
proof -
  obtain s1 where l: "load_courses s = (Inr (JArr L), s1)"
    using assms(1) by (cases "load_courses s") simp
  show ?thesis
    using l assms(2)
    by (simp add: course_details_def course_details_try_def py_defs)
qed

subsection \<open>Records without a code\<close>

lemma lacks_code_subscript: "lacks_code r \<Longrightarrow> subscript r ''code'' = Inl KeyError"
  by (cases r) simp_all

lemma updated_courses_raises:
  "r \<in> set L \<Longrightarrow> subscript r ''code'' = Inl e \<Longrightarrow> \<exists>e'. updated_courses L c = Inl e'"
  by (induction L) (auto split: sum.splits)

lemma next_course_raises:
  "\<forall>p\<in>set pre. \<not> code_is c p \<Longrightarrow> subscript r ''code'' = Inl e \<Longrightarrow>
   \<exists>e'. next_course (pre @ r # suf) c = Inl e'"
  by (induction pre) (auto simp: code_is_def split: sum.splits)

lemma next_course_first:
  "\<forall>p\<in>set pre. has_code p \<and> \<not> code_is c p \<Longrightarrow> code_is c m \<Longrightarrow>
   next_course (pre @ m # suf) c = Inr (Some m)"
  by (induction pre) (auto simp: code_is_def has_code_def split: sum.splits)

lemma delete_course_raises:
  assumes "fst (load_courses s) = Inr (JArr L)" and "updated_courses L c = Inl e"
  shows "delete_course c s =
           (Inr None,
            (snd (load_courses s))
              \<lparr>logged := logged (snd (load_courses s)) @
                  [(Error, ''Error in delete_course_action route'')]\<rparr>)"
proof -
  obtain s1 where l: "load_courses s = (Inr (JArr L), s1)"
    using assms(1) by (cases "load_courses s") simp
  show ?thesis
    using l assms(2)
    by (simp add: delete_course_def delete_course_try_def py_defs)
qed

subsection \<open>The catch-all of a handler\<close>

lemma py_try_raised:
  "fst (m s) = Inl e \<Longrightarrow>
   py_try m (\<lambda>e. py_then (logger Error msg) (py_return None)) s =
     (Inr None, (snd (m s))\<lparr>logged := logged (snd (m s)) @ [(Error, msg)]\<rparr>)"
  by (cases "m s") (simp add: py_defs)

lemma py_try_returned:
  "fst (m s) = Inr r \<Longrightarrow> py_try m h s = m s"
  by (cases "m s") (simp add: py_defs)

lemma py_try_never_raises:
  "\<exists>r. fst (py_try m (\<lambda>e. py_then (logger Error msg) (py_return None)) s) = Inr r"
  by (cases "m s"; cases "fst (m s)") (simp_all add: py_defs)

lemma delete_course_try_raises:
  assumes "fst (load_courses s) = Inr (JArr L)" and "updated_courses L c = Inl e"
  shows "fst (delete_course_try c s) = Inl e"
proof -
  obtain s1 where l: "load_courses s = (Inr (JArr L), s1)"
    using assms(1) by (cases "load_courses s") simp
  show ?thesis
    using l assms(2) by (simp add: delete_course_try_def py_defs)
qed

lemma course_details_try_raises:
  assumes "fst (load_courses s) = Inr (JArr L)" and "next_course L c = Inl e"
  shows "fst (course_details_try c s) = Inl e"
proof -
  obtain s1 where l: "load_courses s = (Inr (JArr L), s1)"
    using assms(1) by (cases "load_courses s") simp
  show ?thesis
    using l assms(2) by (simp add: course_details_try_def py_defs)
qed

section \<open>Properties\<close>

text \<open>
  C1, at a catalog holding a record of code \<^verbatim>\<open>CS301\<close> and a record without a
  \<^verbatim>\<open>'code'\<close> key: deleting \<^verbatim>\<open>CS301\<close> raises in the comprehension; the handler returns
  no response, the matching record stays in the file and no notice is flashed.
\<close>

theorem delete_course_record_without_code_counterexample:
  "fst (load_courses (stored [algorithms, nameless])) = Inr (JArr [algorithms, nameless]) \<and>
   code_is ''CS301'' algorithms \<and>
   fst (delete_course ''CS301'' (stored [algorithms, nameless])) = Inr None \<and>
   course_file (snd (delete_course ''CS301'' (stored [algorithms, nameless]))) =
     Content (JArr [algorithms, nameless]) \<and>
   opens_for_write (snd (delete_course ''CS301'' (stored [algorithms, nameless]))) = 0 \<and>
   flashes (snd (delete_course ''CS301'' (stored [algorithms, nameless]))) = []"
proof -
  have l: "fst (load_courses (stored [algorithms, nameless])) = Inr (JArr [algorithms, nameless])"
    by (simp add: load_courses_eq stored_def)
  have u: "updated_courses [algorithms, nameless] ''CS301'' = Inl KeyError"
    by (simp add: algorithms_def nameless_def new_course_def)
  have c: "code_is ''CS301'' algorithms"
    by (simp add: code_is_def algorithms_def new_course_def)
  have d: "fst (delete_course ''CS301'' (stored [algorithms, nameless])) = Inr None"
    and f: "course_file (snd (delete_course ''CS301'' (stored [algorithms, nameless]))) =
              Content (JArr [algorithms, nameless])"
    and o: "opens_for_write (snd (delete_course ''CS301'' (stored [algorithms, nameless]))) = 0"
    and n: "flashes (snd (delete_course ''CS301'' (stored [algorithms, nameless]))) = []"
    unfolding delete_course_raises[OF l u]
    by (simp_all add: load_courses_eq stored_def)
  show ?thesis
    using l c d f o n by simp
qed

text \<open>
  C1, amended. Let the catalog that \<open>load_courses\<close> returns be the list \<open>L\<close>, every
  record of it having a code. Deleting code \<open>c\<close> always redirects to the catalog page.
  When some record has code \<open>c\<close>, the file is opened for writing once and, the write
  completing, holds \<open>L\<close> without every record whose code is \<open>c\<close>, the others in their
  order, and the success notice is flashed. When no record has code \<open>c\<close>, the file is
  neither opened for writing nor changed, and the not-found notice is flashed; that notice
  appears exactly when no record matched.
\<close>

theorem delete_course_removes_every_match:
  assumes "fst (load_courses s) = Inr (JArr L)" and "\<forall>r\<in>set L. has_code r"
  shows "fst (delete_course c s) = Inr (Some redirect_catalog) \<and>
     (if \<exists>r\<in>set L. code_is c r
      then opens_for_write (snd (delete_course c s)) = Suc (opens_for_write s) \<and>
           (writable s \<longrightarrow>
              course_file (snd (delete_course c s)) =
                Content (JArr (filter (\<lambda>r. \<not> code_is c r) L))) \<and>
           flashes (snd (delete_course c s)) =
             flashes s @ [(''Course deleted successfully!'', ''success'')]
      else opens_for_write (snd (delete_course c s)) = opens_for_write s \<and>
           course_file (snd (delete_course c s)) = course_file s \<and>
           flashes (snd (delete_course c s)) = flashes s @ [(not_found_notice c, ''error'')]) \<and>
     ((flashes (snd (delete_course c s)) = flashes s @ [(not_found_notice c, ''error'')]) =
      (\<not> (\<exists>r\<in>set L. code_is c r)))"
  using assms loaded_array[OF assms(1)]
  by (simp add: delete_course_well_formed save_courses_to_file_eq not_found_notice_def
        writable_def)

theorem delete_course_removes_every_match_witness:
  "fst (load_courses (stored [algorithms, networks, algorithms_lab])) =
     Inr (JArr [algorithms, networks, algorithms_lab]) \<and>
   list_all has_code [algorithms, networks, algorithms_lab] \<and>
   fst (delete_course ''CS301'' (stored [algorithms, networks, algorithms_lab])) =
     Inr (Some redirect_catalog) \<and>
   course_file (snd (delete_course ''CS301'' (stored [algorithms, networks, algorithms_lab]))) =
     Content (JArr [networks]) \<and>
   opens_for_write (snd (delete_course ''CS301'' (stored [algorithms, networks, algorithms_lab]))) = 1 \<and>
   flashes (snd (delete_course ''CS301'' (stored [algorithms, networks, algorithms_lab]))) =
     [(''Course deleted successfully!'', ''success'')]"
proof -
  have l: "fst (load_courses (stored [algorithms, networks, algorithms_lab])) =
      Inr (JArr [algorithms, networks, algorithms_lab])"
    by (simp add: load_courses_eq stored_def)
  have h: "\<forall>r\<in>set [algorithms, networks, algorithms_lab]. has_code r"
    by (simp add: demo_defs)
  have w: "writable (stored [algorithms, networks, algorithms_lab])"
    and o: "opens_for_write (stored [algorithms, networks, algorithms_lab]) = 0"
    and f: "flashes (stored [algorithms, networks, algorithms_lab]) = []"
    by (simp_all add: stored_def writable_def)
  have m: "(\<exists>r\<in>set [algorithms, networks, algorithms_lab]. code_is ''CS301'' r)"
    and k: "filter (\<lambda>r. \<not> code_is ''CS301'' r) [algorithms, networks, algorithms_lab] = [networks]"
    by (simp_all add: demo_defs)
  show ?thesis
    using delete_course_removes_every_match [OF l h, of "''CS301''"] l h
    by (simp only: m k w o f if_True simp_thms append_Nil One_nat_def list_all_iff)
qed

text \<open>
  C2. Let the catalog that \<open>load_courses\<close> returns be the list \<open>L\<close> and let the file be
  writable. After \<open>save_courses r\<close>, which returns normally, \<open>load_courses\<close> returns
  \<open>L @ [r]\<close>: the last element is \<open>r\<close> and the elements before it are those of \<open>L\<close>,
  in order.
\<close>

theorem append_then_load:
  assumes "fst (load_courses s) = Inr (JArr L)" and "writable s"
  shows "fst (save_courses r s) = Inr () \<and>
         fst (load_courses (snd (save_courses r s))) = Inr (JArr (L @ [r])) \<and>
         last (L @ [r]) = r \<and> take (length L) (L @ [r]) = L"
  using save_courses_array[OF assms(1), of r] assms(2)
  by (simp add: load_courses_eq)

theorem append_then_load_witness:
  "fst (load_courses (stored [algorithms])) = Inr (JArr [algorithms]) \<and>
   writable (stored [algorithms]) \<and>
   fst (load_courses (snd (save_courses networks (stored [algorithms])))) =
     Inr (JArr [algorithms, networks])"
proof -
  have l: "fst (load_courses (stored [algorithms])) = Inr (JArr [algorithms])"
    by (simp add: load_courses_eq stored_def)
  have w: "writable (stored [algorithms])"
    by (simp add: stored_def writable_def)
  show ?thesis
    using append_then_load [OF l w, of networks] l w by simp
qed

text \<open>
  C3, at a file holding the JSON text \<^verbatim>\<open>null\<close>: \<open>load_courses\<close> returns \<^verbatim>\<open>None\<close>,
  which is no sequence (it can be neither iterated nor measured), and logs nothing.
\<close>

theorem load_courses_null_counterexample:
  "load_courses ((stored [])\<lparr>course_file := Content JNull\<rparr>) =
     (Inr JNull, (stored [])\<lparr>course_file := Content JNull\<rparr>) \<and>
   py_iter JNull = Inl TypeError \<and> py_len JNull = Inl TypeError \<and>
   logged (snd (load_courses ((stored [])\<lparr>course_file := Content JNull\<rparr>))) = []"
  by (simp add: load_courses_eq stored_def)

text \<open>
  C3, amended. \<open>load_courses\<close> never raises: it always returns a value. With the file
  absent the value is the empty list. When reading or parsing the file raises, the error
  is logged and the value is the empty list. Otherwise the value is the one the file
  holds, returned as it is and with nothing logged: a list when the file holds a JSON
  array.
\<close>

theorem load_courses_never_raises:
  "(\<exists>j. fst (load_courses s) = Inr j) \<and>
   (course_file s = Absent \<longrightarrow> fst (load_courses s) = Inr (JArr [])) \<and>
   (fst (read_file s) = Inl e \<and> course_file s \<noteq> Absent \<longrightarrow>
      fst (load_courses s) = Inr (JArr []) \<and>
      logged (snd (load_courses s)) =
        logged s @ [(Error, ''There is an error loading the courses!'')]) \<and>
   (course_file s = Content j \<longrightarrow> load_courses s = (Inr j, s)) \<and>
   (course_file s = Content (JArr L) \<longrightarrow> fst (load_courses s) = Inr (JArr L))"
  by (cases "course_file s") (auto simp: load_courses_eq read_file_def)

theorem load_courses_never_raises_witness:
  "fst (read_file ((stored [])\<lparr>course_file := Malformed\<rparr>)) = Inl JSONDecodeError \<and>
   course_file ((stored [])\<lparr>course_file := Malformed\<rparr>) \<noteq> Absent \<and>
   load_courses ((stored [])\<lparr>course_file := Malformed\<rparr>) =
     (Inr (JArr []),
      (stored [])\<lparr>course_file := Malformed,
                  logged := [(Error, ''There is an error loading the courses!'')]\<rparr>) \<and>
   fst (load_courses ((stored [])\<lparr>course_file := Absent\<rparr>)) = Inr (JArr []) \<and>
   course_file (stored [algorithms]) = Content (JArr [algorithms]) \<and>
   load_courses (stored [algorithms]) = (Inr (JArr [algorithms]), stored [algorithms])"
proof -
  have c: "course_file (stored [algorithms]) = Content (JArr [algorithms])"
    by (simp add: stored_def)
  show ?thesis
    using load_courses_never_raises
            [of "(stored [])\<lparr>course_file := Malformed\<rparr>" JSONDecodeError "JNull" "[]"]
          load_courses_never_raises
            [of "(stored [])\<lparr>course_file := Absent\<rparr>" OSError "JNull" "[]"]
          load_courses_never_raises
            [of "stored [algorithms]" OSError "JArr [algorithms]" "[algorithms]"] c
    by (simp add: load_courses_eq read_file_def stored_def)
qed

text \<open>
  C4. A POST to the add handler whose form holds the four keys, with the name, the code or
  the instructor empty after \<open>strip\<close>, renders the form template again (the template
  being available) with no values passed to it: status 200, no redirect. The notice
  \<^verbatim>\<open>Fields marked with * are the required fields.\<close> is flashed as an error, and
  the file is neither changed nor opened for writing.
\<close>

theorem add_course_rejects_empty_required_field:
  assumes "req_method req = POST"
    and "map_of (form req) ''name'' = Some nv" and "map_of (form req) ''code'' = Some cv"
    and "map_of (form req) ''instructor'' = Some iv" and "map_of (form req) ''semester'' = Some sv"
    and "strip nv = [] \<or> strip cv = [] \<or> strip iv = []"
    and "''add_course.html'' \<in> set (templates s)"
  shows "fst (add_course req s) = Inr (Some (Rendered ''add_course.html'' [])) \<and>
         status (Rendered ''add_course.html'' []) = 200 \<and>
         fst (add_course req s) \<noteq> Inr (Some redirect_catalog) \<and>
         flashes (snd (add_course req s)) =
           flashes s @ [(''Fields marked with * are the required fields.'', ''error'')] \<and>
         course_file (snd (add_course req s)) = course_file s \<and>
         opens_for_write (snd (add_course req s)) = opens_for_write s"
  by (simp add: add_course_invalid[OF assms] redirect_catalog_def)

theorem add_course_rejects_empty_required_field_witness:
  "req_method (post [(''name'', ''Algorithms''), (''code'', ''CS301''),
                     (''instructor'', ''   ''), (''semester'', ''Fall'')]) = POST \<and>
   strip ''   '' = [] \<and>
   ''add_course.html'' \<in> set (templates (stored [networks])) \<and>
   fst (add_course (post [(''name'', ''Algorithms''), (''code'', ''CS301''),
                          (''instructor'', ''   ''), (''semester'', ''Fall'')])
          (stored [networks])) = Inr (Some (Rendered ''add_course.html'' [])) \<and>
   flashes (snd (add_course (post [(''name'', ''Algorithms''), (''code'', ''CS301''),
                          (''instructor'', ''   ''), (''semester'', ''Fall'')])
          (stored [networks]))) = [(''Fields marked with * are the required fields.'', ''error'')] \<and>
   course_file (snd (add_course (post [(''name'', ''Algorithms''), (''code'', ''CS301''),
                          (''instructor'', ''   ''), (''semester'', ''Fall'')])
          (stored [networks]))) = Content (JArr [networks])"
proof -
  let ?req = "post [(''name'', ''Algorithms''), (''code'', ''CS301''),
                    (''instructor'', ''   ''), (''semester'', ''Fall'')]"
  have m: "req_method ?req = POST" by (simp add: post_def)
  have n: "map_of (form ?req) ''name'' = Some ''Algorithms''" by (simp add: post_def)
  have c: "map_of (form ?req) ''code'' = Some ''CS301''" by (simp add: post_def)
  have i: "map_of (form ?req) ''instructor'' = Some ''   ''" by (simp add: post_def)
  have e: "map_of (form ?req) ''semester'' = Some ''Fall''" by (simp add: post_def)
  have z: "strip ''   '' = []" by (simp add: strip_def isspace_def)
  then have v: "strip ''Algorithms'' = [] \<or> strip ''CS301'' = [] \<or> strip ''   '' = []" by simp
  have t: "''add_course.html'' \<in> set (templates (stored [networks]))" by (simp add: stored_def)
  show ?thesis
    using add_course_rejects_empty_required_field [OF m n c i e v t] m z t
    by (simp add: stored_def)
qed

text \<open>
  C5, at a form without the \<^verbatim>\<open>semester\<close> key: name, code and instructor are valid,
  yet the handler returns no response, flashes nothing and leaves the file as it was.
\<close>

theorem add_course_semester_absent_counterexample:
  "map_of (form (post [(''name'', ''Algorithms''), (''code'', ''CS301''),
                       (''instructor'', ''Dr. A'')])) ''semester'' = None \<and>
   strip ''Algorithms'' \<noteq> [] \<and> strip ''CS301'' \<noteq> [] \<and> strip ''Dr. A'' \<noteq> [] \<and>
   fst (add_course (post [(''name'', ''Algorithms''), (''code'', ''CS301''),
                          (''instructor'', ''Dr. A'')]) (stored [networks])) = Inr None \<and>
   fst (add_course (post [(''name'', ''Algorithms''), (''code'', ''CS301''),
                          (''instructor'', ''Dr. A'')]) (stored [networks])) \<noteq>
     Inr (Some redirect_catalog) \<and>
   flashes (snd (add_course (post [(''name'', ''Algorithms''), (''code'', ''CS301''),
                          (''instructor'', ''Dr. A'')]) (stored [networks]))) = [] \<and>
   course_file (snd (add_course (post [(''name'', ''Algorithms''), (''code'', ''CS301''),
                          (''instructor'', ''Dr. A'')]) (stored [networks]))) =
     Content (JArr [networks])"
proof -
  let ?req = "post [(''name'', ''Algorithms''), (''code'', ''CS301''), (''instructor'', ''Dr. A'')]"
  have m: "req_method ?req = POST" by (simp add: post_def)
  have k: "map_of (form ?req) ''name'' = None \<or> map_of (form ?req) ''code'' = None \<or>
         map_of (form ?req) ''instructor'' = None \<or> map_of (form ?req) ''semester'' = None"
    by (simp add: post_def)
  have v: "strip ''Algorithms'' \<noteq> [] \<and> strip ''CS301'' \<noteq> [] \<and> strip ''Dr. A'' \<noteq> []"
    by (simp add: strip_def isspace_def)
  have n: "map_of (form ?req) ''semester'' = None" by (simp add: post_def)
  have a: "fst (add_course ?req (stored [networks])) = Inr None"
    and f: "flashes (snd (add_course ?req (stored [networks]))) = []"
    and c: "course_file (snd (add_course ?req (stored [networks]))) = Content (JArr [networks])"
    by (simp_all add: add_course_missing_key[OF m k] stored_def)
  show ?thesis
    using v n a f c by simp
qed

text \<open>
  C5, amended. A POST to the add handler whose form holds the four keys, with name, code
  and instructor non-empty after \<open>strip\<close>: the record is built from the four stripped
  values, its semester being the stripped value of the form (the empty string when the
  field was left empty), and is handed to \<open>save_courses\<close>; the success notice is flashed
  and the handler redirects to the catalog page. When the catalog loaded is the list \<open>L\<close>
  and the file is writable, the catalog afterwards is \<open>L\<close> followed by the record.
\<close>

theorem add_course_valid_appends:
  assumes "req_method req = POST"
    and "map_of (form req) ''name'' = Some nv" and "map_of (form req) ''code'' = Some cv"
    and "map_of (form req) ''instructor'' = Some iv" and "map_of (form req) ''semester'' = Some sv"
    and "strip nv \<noteq> []" and "strip cv \<noteq> []" and "strip iv \<noteq> []"
  shows "fst (add_course req s) = Inr (Some redirect_catalog) \<and>
         flashes (snd (add_course req s)) =
           flashes s @ [(''Course added successfully!'', ''success'')] \<and>
         course_file (snd (add_course req s)) =
           course_file (snd (save_courses
              (new_course (strip nv) (strip cv) (strip iv) (strip sv)) s)) \<and>
         subscript (new_course (strip nv) (strip cv) (strip iv) (strip sv)) ''semester'' =
           Inr (JStr (strip sv)) \<and>
         (\<forall>L. fst (load_courses s) = Inr (JArr L) \<and> writable s \<longrightarrow>
            fst (load_courses (snd (add_course req s))) =
              Inr (JArr (L @ [new_course (strip nv) (strip cv) (strip iv) (strip sv)])))"
proof -
  let ?r = "new_course (strip nv) (strip cv) (strip iv) (strip sv)"
  have "fst (load_courses (snd (add_course req s))) = Inr (JArr (L @ [?r]))"
    if "fst (load_courses s) = Inr (JArr L)" and "writable s" for L
    using save_courses_array[OF that(1), of ?r] that(2)
    by (simp add: add_course_valid[OF assms] load_courses_eq)
  then show ?thesis
    by (simp add: add_course_valid[OF assms] new_course_def)
qed

theorem add_course_valid_appends_witness:
  "req_method (post [(''name'', '' Algorithms Lab''), (''code'', ''CS302 ''),
                     (''instructor'', ''Dr. C''), (''semester'', '' '')]) = POST \<and>
   strip '' Algorithms Lab'' = ''Algorithms Lab'' \<and> strip ''CS302 '' = ''CS302'' \<and>
   strip ''Dr. C'' = ''Dr. C'' \<and> strip '' '' = [] \<and>
   fst (load_courses (stored [algorithms])) = Inr (JArr [algorithms]) \<and>
   writable (stored [algorithms]) \<and>
   fst (add_course (post [(''name'', '' Algorithms Lab''), (''code'', ''CS302 ''),
                          (''instructor'', ''Dr. C''), (''semester'', '' '')])
          (stored [algorithms])) = Inr (Some redirect_catalog) \<and>
   flashes (snd (add_course (post [(''name'', '' Algorithms Lab''), (''code'', ''CS302 ''),
                          (''instructor'', ''Dr. C''), (''semester'', '' '')])
          (stored [algorithms]))) = [(''Course added successfully!'', ''success'')] \<and>
   fst (load_courses (snd (add_course (post [(''name'', '' Algorithms Lab''),
                          (''code'', ''CS302 ''), (''instructor'', ''Dr. C''),
                          (''semester'', '' '')]) (stored [algorithms])))) =
     Inr (JArr [algorithms, new_course ''Algorithms Lab'' ''CS302'' ''Dr. C'' []])"
proof -
  let ?req = "post [(''name'', '' Algorithms Lab''), (''code'', ''CS302 ''),
                    (''instructor'', ''Dr. C''), (''semester'', '' '')]"
  have m: "req_method ?req = POST" by (simp add: post_def)
  have n: "map_of (form ?req) ''name'' = Some '' Algorithms Lab''" by (simp add: post_def)
  have c: "map_of (form ?req) ''code'' = Some ''CS302 ''" by (simp add: post_def)
  have i: "map_of (form ?req) ''instructor'' = Some ''Dr. C''" by (simp add: post_def)
  have e: "map_of (form ?req) ''semester'' = Some '' ''" by (simp add: post_def)
  have sn: "strip '' Algorithms Lab'' = ''Algorithms Lab''"
    and sc: "strip ''CS302 '' = ''CS302''"
    and si: "strip ''Dr. C'' = ''Dr. C''"
    and ss: "strip '' '' = []"
    by (simp_all add: strip_def isspace_def)
  have vn: "strip '' Algorithms Lab'' \<noteq> []" and vc: "strip ''CS302 '' \<noteq> []"
    and vi: "strip ''Dr. C'' \<noteq> []"
    by (simp_all add: sn sc si)
  have l: "fst (load_courses (stored [algorithms])) = Inr (JArr [algorithms])"
    by (simp add: load_courses_eq stored_def)
  have w: "writable (stored [algorithms])" and f: "flashes (stored [algorithms]) = []"
    by (simp_all add: stored_def writable_def)
  show ?thesis
    using add_course_valid_appends [OF m n c i e vn vc vi, of "stored [algorithms]"] m l w
    by (simp add: sn sc si ss f)
qed

text \<open>
  C6, at a catalog whose only record has no \<^verbatim>\<open>'code'\<close> key: no record has code
  \<^verbatim>\<open>CS999\<close>, yet the details handler raises on the subscript, returns no response and
  flashes no notice.
\<close>

theorem course_details_record_without_code_counterexample:
  "fst (load_courses (stored [nameless])) = Inr (JArr [nameless]) \<and>
   \<not> list_ex (code_is ''CS999'') [nameless] \<and>
   fst (course_details ''CS999'' (stored [nameless])) = Inr None \<and>
   fst (course_details ''CS999'' (stored [nameless])) \<noteq> Inr (Some redirect_catalog) \<and>
   flashes (snd (course_details ''CS999'' (stored [nameless]))) = []"
proof -
  have l: "fst (load_courses (stored [nameless])) = Inr (JArr [nameless])"
    by (simp add: load_courses_eq stored_def)
  have n: "next_course [nameless] ''CS999'' = Inl KeyError"
    by (simp add: nameless_def)
  have x: "\<not> list_ex (code_is ''CS999'') [nameless]"
    by (simp add: code_is_def nameless_def)
  have d: "fst (course_details ''CS999'' (stored [nameless])) = Inr None"
    and f: "flashes (snd (course_details ''CS999'' (stored [nameless]))) = []"
    unfolding course_details_raises[OF l n]
    by (simp_all add: load_courses_eq stored_def)
  show ?thesis
    using l x d f by simp
qed

text \<open>
  C6, amended. Let the catalog that \<open>load_courses\<close> returns be the list \<open>L\<close>. When every
  record has a code and none has code \<open>c\<close>, the details handler returns normally: it
  flashes the error notice \<^verbatim>\<open>No course found with code '\<close>\<open>c\<close>\<^verbatim>\<open>'.\<close> and redirects
  to the catalog page. When some record has code \<open>c\<close> and every record before the first
  such record has a code, it renders the details template (the template being available)
  with that first record and flashes nothing.
\<close>

theorem course_details_found_or_redirect:
  assumes "fst (load_courses s) = Inr (JArr L)"
  shows "((\<forall>r\<in>set L. has_code r) \<and> \<not> (\<exists>r\<in>set L. code_is c r) \<longrightarrow>
            fst (course_details c s) = Inr (Some redirect_catalog) \<and>
            redirect_catalog = Redirect ''/catalog'' \<and>
            flashes (snd (course_details c s)) =
              flashes s @ [(''No course found with code '' @ [CHR 0x27] @ c @ [CHR 0x27] @ ''.'',
                            ''error'')]) \<and>
         (\<forall>pre m suf. L = pre @ m # suf \<and> code_is c m \<and>
              (\<forall>p\<in>set pre. has_code p \<and> \<not> code_is c p) \<and>
              ''course_details.html'' \<in> set (templates s) \<longrightarrow>
            find (code_is c) L = Some m \<and>
            fst (course_details c s) =
              Inr (Some (Rendered ''course_details.html'' [(''course'', m)])) \<and>
            flashes (snd (course_details c s)) = flashes s)"
proof -
  have "fst (course_details c s) = Inr (Some redirect_catalog) \<and>
        flashes (snd (course_details c s)) = flashes s @ [(not_found_notice c, ''error'')]"
    if coded: "\<forall>r\<in>set L. has_code r" and absent: "\<not> (\<exists>r\<in>set L. code_is c r)"
  proof -
    from absent have "find (code_is c) L = None" by (simp add: find_None_iff)
    with next_course_find[OF coded, of c] have "next_course L c = Inr None" by simp
    then show ?thesis by (simp add: course_details_none[OF assms])
  qed
  moreover have "find (code_is c) L = Some m \<and>
                 fst (course_details c s) =
                   Inr (Some (Rendered ''course_details.html'' [(''course'', m)])) \<and>
                 flashes (snd (course_details c s)) = flashes s"
    if decomp: "L = pre @ m # suf" and hit: "code_is c m"
      and before: "\<forall>p\<in>set pre. has_code p \<and> \<not> code_is c p"
      and tpl: "''course_details.html'' \<in> set (templates s)" for pre m suf
  proof -
    have n: "next_course L c = Inr (Some m)"
      using next_course_first[OF before hit, of suf] decomp by simp
    have "find (code_is c) (pre @ m # suf) = Some m"
      using before hit by (induction pre) simp_all
    then show ?thesis
      using course_details_some[OF assms n hit tpl] loaded_array(4)[OF assms] decomp
      by simp
  qed
  ultimately show ?thesis
    by (simp add: not_found_notice_def redirect_catalog_def)
qed

theorem course_details_found_or_redirect_witness:
  "fst (load_courses (stored [algorithms, networks, algorithms_lab])) =
     Inr (JArr [algorithms, networks, algorithms_lab]) \<and>
   list_all has_code [algorithms, networks, algorithms_lab] \<and>
   \<not> list_ex (code_is ''CS999'') [algorithms, networks, algorithms_lab] \<and>
   fst (course_details ''CS999'' (stored [algorithms, networks, algorithms_lab])) =
     Inr (Some (Redirect ''/catalog'')) \<and>
   flashes (snd (course_details ''CS999'' (stored [algorithms, networks, algorithms_lab]))) =
     [(''No course found with code 'CS999'.'', ''error'')] \<and>
   has_code networks \<and> \<not> code_is ''CS301'' networks \<and> code_is ''CS301'' algorithms_lab \<and>
   fst (course_details ''CS301'' (stored [networks, algorithms_lab, nameless, algorithms])) =
     Inr (Some (Rendered ''course_details.html'' [(''course'', algorithms_lab)]))"
proof -
  let ?L = "[algorithms, networks, algorithms_lab]"
  let ?M = "[networks, algorithms_lab, nameless, algorithms]"
  have l: "fst (load_courses (stored ?L)) = Inr (JArr ?L)"
    by (simp add: load_courses_eq stored_def)
  have l': "fst (load_courses (stored ?M)) = Inr (JArr ?M)"
    by (simp add: load_courses_eq stored_def)
  have h: "\<forall>r\<in>set ?L. has_code r"
    by (simp add: demo_defs)
  have a: "\<not> (\<exists>r\<in>set ?L. code_is ''CS999'' r)"
    by (simp add: demo_defs)
  have b: "has_code networks" "\<not> code_is ''CS301'' networks" "code_is ''CS301'' algorithms_lab"
    by (simp_all add: demo_defs)
  have t: "''course_details.html'' \<in> set (templates (stored ?M))"
    and f: "flashes (stored ?L) = []"
    by (simp_all add: stored_def)
  have p: "?M = [networks] @ algorithms_lab # [nameless, algorithms]" by simp
  have q: "\<forall>p\<in>set [networks]. has_code p \<and> \<not> code_is ''CS301'' p"
    using b by simp
  have d1: "fst (course_details ''CS999'' (stored ?L)) = Inr (Some (Redirect ''/catalog''))"
    and d2: "flashes (snd (course_details ''CS999'' (stored ?L))) =
               [(''No course found with code 'CS999'.'', ''error'')]"
    using course_details_found_or_redirect [OF l, of "''CS999''"] h a
    by (simp_all add: f)
  have d3: "fst (course_details ''CS301'' (stored ?M)) =
     Inr (Some (Rendered ''course_details.html'' [(''course'', algorithms_lab)]))"
    using course_details_found_or_redirect [OF l', of "''CS301''"] p q b(3) t
    by blast
  show ?thesis
    using l h a b d1 d2 d3 by (simp add: list_all_iff list_ex_iff)
qed

text \<open>
  C7. No uniqueness check on add. Let the catalog loaded be the list \<open>L\<close>, holding a
  record \<open>old\<close> whose code is \<open>c\<close>, and let the file be writable. A valid POST to the add
  handler whose stripped code is \<open>c\<close> succeeds as any other (redirect, success notice),
  and the catalog afterwards is \<open>L\<close> followed by the new record: \<open>old\<close> is still there,
  the new record is last, and both have code \<open>c\<close>.
\<close>

theorem add_course_allows_duplicate_code:
  assumes "fst (load_courses s) = Inr (JArr L)" and "writable s"
    and "old \<in> set L" and "code_is (strip cv) old"
    and "req_method req = POST"
    and "map_of (form req) ''name'' = Some nv" and "map_of (form req) ''code'' = Some cv"
    and "map_of (form req) ''instructor'' = Some iv" and "map_of (form req) ''semester'' = Some sv"
    and "strip nv \<noteq> []" and "strip cv \<noteq> []" and "strip iv \<noteq> []"
  shows "fst (add_course req s) = Inr (Some redirect_catalog) \<and>
         flashes (snd (add_course req s)) =
           flashes s @ [(''Course added successfully!'', ''success'')] \<and>
         fst (load_courses (snd (add_course req s))) =
           Inr (JArr (L @ [new_course (strip nv) (strip cv) (strip iv) (strip sv)])) \<and>
         old \<in> set (L @ [new_course (strip nv) (strip cv) (strip iv) (strip sv)]) \<and>
         last (L @ [new_course (strip nv) (strip cv) (strip iv) (strip sv)]) =
           new_course (strip nv) (strip cv) (strip iv) (strip sv) \<and>
         code_is (strip cv) (new_course (strip nv) (strip cv) (strip iv) (strip sv)) \<and>
         length (filter (code_is (strip cv))
                   (L @ [new_course (strip nv) (strip cv) (strip iv) (strip sv)])) =
           Suc (length (filter (code_is (strip cv)) L))"
proof -
  let ?r = "new_course (strip nv) (strip cv) (strip iv) (strip sv)"
  have c: "code_is (strip cv) ?r"
    by (simp add: code_is_def new_course_def)
  have "fst (load_courses (snd (add_course req s))) = Inr (JArr (L @ [?r]))"
    using save_courses_array[OF assms(1), of ?r] assms(2)
    by (simp add: add_course_valid[OF assms(5-12)] load_courses_eq)
  then show ?thesis
    using c assms(3)
    by (simp add: add_course_valid[OF assms(5-12)])
qed

theorem add_course_allows_duplicate_code_witness:
  "fst (load_courses (stored [algorithms, networks])) = Inr (JArr [algorithms, networks]) \<and>
   writable (stored [algorithms, networks]) \<and>
   algorithms \<in> set [algorithms, networks] \<and>
   code_is (strip ''CS301'') algorithms \<and>
   fst (add_course (post [(''name'', ''Algorithms Lab''), (''code'', ''CS301''),
                          (''instructor'', ''Dr. C''), (''semester'', [])])
          (stored [algorithms, networks])) = Inr (Some redirect_catalog) \<and>
   fst (load_courses (snd (add_course (post [(''name'', ''Algorithms Lab''),
                          (''code'', ''CS301''), (''instructor'', ''Dr. C''),
                          (''semester'', [])]) (stored [algorithms, networks])))) =
     Inr (JArr [algorithms, networks, algorithms_lab])"
proof -
  let ?req = "post [(''name'', ''Algorithms Lab''), (''code'', ''CS301''),
                    (''instructor'', ''Dr. C''), (''semester'', [])]"
  have m: "req_method ?req = POST" by (simp add: post_def)
  have n: "map_of (form ?req) ''name'' = Some ''Algorithms Lab''" by (simp add: post_def)
  have c: "map_of (form ?req) ''code'' = Some ''CS301''" by (simp add: post_def)
  have i: "map_of (form ?req) ''instructor'' = Some ''Dr. C''" by (simp add: post_def)
  have e: "map_of (form ?req) ''semester'' = Some []" by (simp add: post_def)
  have sn: "strip ''Algorithms Lab'' = ''Algorithms Lab''"
    and sc: "strip ''CS301'' = ''CS301''"
    and si: "strip ''Dr. C'' = ''Dr. C''"
    and ss: "strip [] = []"
    by (simp_all add: strip_def isspace_def)
  have vn: "strip ''Algorithms Lab'' \<noteq> []" and vc: "strip ''CS301'' \<noteq> []"
    and vi: "strip ''Dr. C'' \<noteq> []"
    by (simp_all add: sn sc si)
  have l: "fst (load_courses (stored [algorithms, networks])) = Inr (JArr [algorithms, networks])"
    by (simp add: load_courses_eq stored_def)
  have w: "writable (stored [algorithms, networks])"
    by (simp add: stored_def writable_def)
  have o: "algorithms \<in> set [algorithms, networks]" by simp
  have k: "code_is (strip ''CS301'') algorithms"
    by (simp add: sc code_is_def algorithms_def new_course_def)
  show ?thesis
    using add_course_allows_duplicate_code [OF l w o k m n c i e vn vc vi] l w k
    by (simp add: sn sc si ss algorithms_lab_def)
qed

text \<open>
  C8, at the home page: with the template \<^verbatim>\<open>index.html\<close> missing, \<open>render_template\<close>
  raises inside \<open>index\<close>, which has no \<^verbatim>\<open>try\<close>, and the exception leaves the handler.
\<close>

theorem index_propagates_counterexample:
  "fst (index ((stored [])\<lparr>templates := []\<rparr>)) = Inl TemplateNotFound"
  by (simp add: index_def render_template_def py_defs stored_def)

text \<open>
  C8, amended. The four handlers that wrap their body in \<^verbatim>\<open>try\<close> (catalog, details, add,
  delete) never let an exception out: each always returns. When the body of one raises,
  the handler logs an error entry after the effects the body had made, and returns no
  response; when the body returns, the handler returns the same. The home page handler
  has no catch-all: a missing template makes it raise.
\<close>

theorem guarded_handlers_swallow_exceptions:
  "(\<exists>r. fst (course_catalog s) = Inr r) \<and>
   (\<exists>r. fst (course_details c s) = Inr r) \<and>
   (\<exists>r. fst (add_course req s) = Inr r) \<and>
   (\<exists>r. fst (delete_course c s) = Inr r) \<and>
   ((\<exists>e. fst (course_catalog_try s) = Inl e) \<longrightarrow>
      course_catalog s =
        (Inr None, (snd (course_catalog_try s))
           \<lparr>logged := logged (snd (course_catalog_try s)) @
              [(Error, ''Error rendering catalog page'')]\<rparr>)) \<and>
   ((\<exists>e. fst (course_details_try c s) = Inl e) \<longrightarrow>
      course_details c s =
        (Inr None, (snd (course_details_try c s))
           \<lparr>logged := logged (snd (course_details_try c s)) @
              [(Error, ''Error displaying course details'')]\<rparr>)) \<and>
   ((\<exists>e. fst (add_course_try req s) = Inl e) \<longrightarrow>
      add_course req s =
        (Inr None, (snd (add_course_try req s))
           \<lparr>logged := logged (snd (add_course_try req s)) @
              [(Error, ''Error in add_course_page route'')]\<rparr>)) \<and>
   ((\<exists>e. fst (delete_course_try c s) = Inl e) \<longrightarrow>
      delete_course c s =
        (Inr None, (snd (delete_course_try c s))
           \<lparr>logged := logged (snd (delete_course_try c s)) @
              [(Error, ''Error in delete_course_action route'')]\<rparr>)) \<and>
   ((\<exists>r. fst (course_catalog_try s) = Inr r) \<longrightarrow> course_catalog s = course_catalog_try s) \<and>
   ((\<exists>r. fst (course_details_try c s) = Inr r) \<longrightarrow>
      course_details c s = course_details_try c s) \<and>
   ((\<exists>r. fst (add_course_try req s) = Inr r) \<longrightarrow> add_course req s = add_course_try req s) \<and>
   ((\<exists>r. fst (delete_course_try c s) = Inr r) \<longrightarrow>
      delete_course c s = delete_course_try c s) \<and>
   (''index.html'' \<notin> set (templates s) \<longrightarrow> fst (index s) = Inl TemplateNotFound)"
proof -
  have "fst (index s) = Inl TemplateNotFound" if "''index.html'' \<notin> set (templates s)"
    using that by (simp add: index_def render_template_def py_defs)
  then show ?thesis
    unfolding course_catalog_def course_details_def add_course_def delete_course_def
    by (auto simp: py_try_never_raises py_try_raised py_try_returned)
qed

theorem guarded_handlers_swallow_exceptions_witness:
  "fst (course_details_try ''CS433'' (stored [nameless, networks])) = Inl KeyError \<and>
   course_details ''CS433'' (stored [nameless, networks]) =
     (Inr None,
      (stored [nameless, networks])\<lparr>logged := [(Error, ''Error displaying course details'')]\<rparr>) \<and>
   fst (delete_course_try ''CS433'' (stored [nameless, networks])) = Inl KeyError \<and>
   fst (delete_course ''CS433'' (stored [nameless, networks])) = Inr None \<and>
   fst (index ((stored [])\<lparr>templates := []\<rparr>)) = Inl TemplateNotFound"
proof -
  let ?w = "stored [nameless, networks]"
  have l: "fst (load_courses ?w) = Inr (JArr [nameless, networks])"
    by (simp add: load_courses_eq stored_def)
  have n: "next_course [nameless, networks] ''CS433'' = Inl KeyError"
    and u: "updated_courses [nameless, networks] ''CS433'' = Inl KeyError"
    by (simp_all add: nameless_def)
  have d: "fst (course_details_try ''CS433'' ?w) = Inl KeyError"
    using course_details_try_raises[OF l n] .
  have e: "fst (delete_course_try ''CS433'' ?w) = Inl KeyError"
    using delete_course_try_raises[OF l u] .
  have s1: "snd (course_details_try ''CS433'' ?w) = ?w"
    using n by (simp add: course_details_try_def py_defs load_courses_eq stored_def)
  have t: "''index.html'' \<notin> set (templates ((stored [])\<lparr>templates := []\<rparr>))"
    by simp
  have o: "logged ?w = []" by (simp add: stored_def)
  show ?thesis
    using guarded_handlers_swallow_exceptions [of ?w "''CS433''"] d e
          guarded_handlers_swallow_exceptions [of "(stored [])\<lparr>templates := []\<rparr>"] t
    by (simp add: s1 o)
qed

text \<open>
  C9. A POST to the add handler whose form lacks one of the keys \<^verbatim>\<open>name\<close>,
  \<^verbatim>\<open>code\<close>, \<^verbatim>\<open>instructor\<close>, \<^verbatim>\<open>semester\<close>: the body raises
  \<open>AttributeError\<close> (\<^verbatim>\<open>strip\<close> on \<^verbatim>\<open>None\<close>), the handler catches it, logs it and
  returns no response; nothing is flashed and the file is neither changed nor opened for
  writing.
\<close>

theorem add_course_missing_form_key:
  assumes "req_method req = POST"
    and "map_of (form req) ''name'' = None \<or> map_of (form req) ''code'' = None \<or>
         map_of (form req) ''instructor'' = None \<or> map_of (form req) ''semester'' = None"
  shows "fst (add_course_try req s) = Inl AttributeError \<and>
         fst (add_course req s) = Inr None \<and>
         flashes (snd (add_course req s)) = flashes s \<and>
         course_file (snd (add_course req s)) = course_file s \<and>
         opens_for_write (snd (add_course req s)) = opens_for_write s \<and>
         logged (snd (add_course req s)) =
           logged s @ [(Error, ''Error in add_course_page route'')]"
proof -
  have "fst (add_course_try req s) = Inl AttributeError"
    using assms
    by (cases "map_of (form req) ''name''"; cases "map_of (form req) ''code''";
        cases "map_of (form req) ''instructor''"; cases "map_of (form req) ''semester''")
       (simp_all add: add_course_try_def form_get_strip_def py_defs)
  then show ?thesis
    by (simp add: add_course_missing_key[OF assms])
qed

theorem add_course_missing_form_key_witness:
  "req_method (post [(''name'', ''Algorithms''), (''instructor'', ''Dr. A''),
                     (''semester'', ''Fall'')]) = POST \<and>
   map_of (form (post [(''name'', ''Algorithms''), (''instructor'', ''Dr. A''),
                       (''semester'', ''Fall'')])) ''code'' = None \<and>
   fst (add_course (post [(''name'', ''Algorithms''), (''instructor'', ''Dr. A''),
                          (''semester'', ''Fall'')]) (stored [networks])) = Inr None \<and>
   flashes (snd (add_course (post [(''name'', ''Algorithms''), (''instructor'', ''Dr. A''),
                          (''semester'', ''Fall'')]) (stored [networks]))) = [] \<and>
   course_file (snd (add_course (post [(''name'', ''Algorithms''), (''instructor'', ''Dr. A''),
                          (''semester'', ''Fall'')]) (stored [networks]))) =
     Content (JArr [networks])"
proof -
  let ?req = "post [(''name'', ''Algorithms''), (''instructor'', ''Dr. A''),
                    (''semester'', ''Fall'')]"
  have m: "req_method ?req = POST" by (simp add: post_def)
  have c: "map_of (form ?req) ''code'' = None" by (simp add: post_def)
  then have k: "map_of (form ?req) ''name'' = None \<or> map_of (form ?req) ''code'' = None \<or>
         map_of (form ?req) ''instructor'' = None \<or> map_of (form ?req) ''semester'' = None"
    by simp
  show ?thesis
    using add_course_missing_form_key [OF m k, of "stored [networks]"] m c
    by (simp add: stored_def)
qed

text \<open>
  C10, at a catalog whose first record has the code asked for and whose second record has
  no \<^verbatim>\<open>'code'\<close> key: the lookup of the details handler stops at the first record, never
  reaches the second, and the page is rendered.
\<close>

theorem course_details_stops_at_match_counterexample:
  "lacks_code nameless \<and> nameless \<in> set [algorithms, nameless] \<and>
   fst (load_courses (stored [algorithms, nameless])) = Inr (JArr [algorithms, nameless]) \<and>
   fst (course_details ''CS301'' (stored [algorithms, nameless])) =
     Inr (Some (Rendered ''course_details.html'' [(''course'', algorithms)])) \<and>
   fst (course_details ''CS301'' (stored [algorithms, nameless])) \<noteq> Inr None"
proof -
  have l: "fst (load_courses (stored [algorithms, nameless])) = Inr (JArr [algorithms, nameless])"
    by (simp add: load_courses_eq stored_def)
  have n: "next_course [algorithms, nameless] ''CS301'' = Inr (Some algorithms)"
    by (simp add: algorithms_def new_course_def)
  have c: "code_is ''CS301'' algorithms"
    by (simp add: code_is_def algorithms_def new_course_def)
  have t: "''course_details.html'' \<in> set (templates (stored [algorithms, nameless]))"
    by (simp add: stored_def)
  have k: "lacks_code nameless" by (simp add: nameless_def)
  show ?thesis
    using l k by (simp add: course_details_some[OF l n c t])
qed

text \<open>
  C10, amended. Let the catalog loaded be the list \<open>L\<close>, holding a record \<open>r\<close> without a
  \<^verbatim>\<open>'code'\<close> key. The delete handler subscripts every record: its body raises, it
  returns no response, flashes nothing, and the file is neither changed nor opened for
  writing. The details handler subscripts the records up to the first one with the code
  asked for: when no record before \<open>r\<close> has that code, its body raises and it returns no
  response and flashes nothing; when a record with that code comes before every record
  without a code, that record is rendered (the template being available).
\<close>

theorem record_without_code:
  assumes "fst (load_courses s) = Inr (JArr L)" and "r \<in> set L" and "lacks_code r"
  shows "(\<exists>e. fst (delete_course_try c s) = Inl e) \<and>
         fst (delete_course c s) = Inr None \<and>
         flashes (snd (delete_course c s)) = flashes s \<and>
         course_file (snd (delete_course c s)) = course_file s \<and>
         opens_for_write (snd (delete_course c s)) = opens_for_write s \<and>
         (\<forall>pre suf. L = pre @ r # suf \<and> (\<forall>p\<in>set pre. \<not> code_is c p) \<longrightarrow>
            (\<exists>e. fst (course_details_try c s) = Inl e) \<and>
            fst (course_details c s) = Inr None \<and>
            flashes (snd (course_details c s)) = flashes s) \<and>
         (\<forall>pre m suf. L = pre @ m # suf \<and> code_is c m \<and>
              (\<forall>p\<in>set pre. has_code p \<and> \<not> code_is c p) \<and>
              ''course_details.html'' \<in> set (templates s) \<longrightarrow>
            fst (course_details c s) =
              Inr (Some (Rendered ''course_details.html'' [(''course'', m)])))"
proof -
  have k: "subscript r ''code'' = Inl KeyError"
    using assms(3) by (rule lacks_code_subscript)
  obtain e where u: "updated_courses L c = Inl e"
    using updated_courses_raises[OF assms(2) k] by blast
  have d: "(\<exists>e. fst (delete_course_try c s) = Inl e) \<and>
         fst (delete_course c s) = Inr None \<and>
         flashes (snd (delete_course c s)) = flashes s \<and>
         course_file (snd (delete_course c s)) = course_file s \<and>
         opens_for_write (snd (delete_course c s)) = opens_for_write s"
    using delete_course_try_raises[OF assms(1) u] loaded_array[OF assms(1)]
    by (simp add: delete_course_raises[OF assms(1) u])
  have a: "(\<exists>e. fst (course_details_try c s) = Inl e) \<and>
            fst (course_details c s) = Inr None \<and>
            flashes (snd (course_details c s)) = flashes s"
    if decomp: "L = pre @ r # suf" and before: "\<forall>p\<in>set pre. \<not> code_is c p" for pre suf
  proof -
    obtain e' where n: "next_course L c = Inl e'"
      using next_course_raises[OF before k, of suf] decomp by blast
    show ?thesis
      using course_details_try_raises[OF assms(1) n] loaded_array[OF assms(1)]
      by (simp add: course_details_raises[OF assms(1) n])
  qed
  have b: "fst (course_details c s) =
              Inr (Some (Rendered ''course_details.html'' [(''course'', m)]))"
    if "L = pre @ m # suf" and "code_is c m" and "\<forall>p\<in>set pre. has_code p \<and> \<not> code_is c p"
      and "''course_details.html'' \<in> set (templates s)" for pre m suf
  proof -
    have n: "next_course L c = Inr (Some m)"
      using next_course_first[OF that(3,2), of suf] that(1) by simp
    show ?thesis
      by (simp add: course_details_some[OF assms(1) n that(2,4)])
  qed
  show ?thesis
    using d a b by blast
qed

theorem record_without_code_witness:
  "fst (load_courses (stored [algorithms, nameless, networks])) =
     Inr (JArr [algorithms, nameless, networks]) \<and>
   nameless \<in> set [algorithms, nameless, networks] \<and> lacks_code nameless \<and>
   fst (delete_course ''CS433'' (stored [algorithms, nameless, networks])) = Inr None \<and>
   course_file (snd (delete_course ''CS433'' (stored [algorithms, nameless, networks]))) =
     Content (JArr [algorithms, nameless, networks]) \<and>
   opens_for_write (snd (delete_course ''CS433'' (stored [algorithms, nameless, networks]))) = 0 \<and>
   flashes (snd (delete_course ''CS433'' (stored [algorithms, nameless, networks]))) = [] \<and>
   \<not> code_is ''CS433'' algorithms \<and>
   fst (course_details ''CS433'' (stored [algorithms, nameless, networks])) = Inr None \<and>
   code_is ''CS301'' algorithms \<and>
   fst (course_details ''CS301'' (stored [algorithms, nameless, networks])) =
     Inr (Some (Rendered ''course_details.html'' [(''course'', algorithms)]))"
proof -
  let ?L = "[algorithms, nameless, networks]"
  have l: "fst (load_courses (stored ?L)) = Inr (JArr ?L)"
    by (simp add: load_courses_eq stored_def)
  have i: "nameless \<in> set ?L" by simp
  have k: "lacks_code nameless" by (simp add: nameless_def)
  have x: "\<not> code_is ''CS433'' algorithms" and y: "code_is ''CS301'' algorithms"
    by (simp_all add: code_is_def algorithms_def new_course_def)
  have f: "flashes (stored ?L) = []" and o: "opens_for_write (stored ?L) = 0"
    and c: "course_file (stored ?L) = Content (JArr ?L)"
    and t: "''course_details.html'' \<in> set (templates (stored ?L))"
    by (simp_all add: stored_def)
  have p: "?L = [algorithms] @ nameless # [networks]" by simp
  have q: "?L = [] @ algorithms # [nameless, networks]" by simp
  note w1 = record_without_code [OF l i k, of "''CS433''"]
  note w2 = record_without_code [OF l i k, of "''CS301''"]
  have d1: "fst (course_details ''CS433'' (stored ?L)) = Inr None"
    using w1 p x by (metis empty_iff empty_set set_ConsD)
  have d2: "fst (course_details ''CS301'' (stored ?L)) =
     Inr (Some (Rendered ''course_details.html'' [(''course'', algorithms)]))"
    using w2 q y t by (metis empty_iff empty_set)
  show ?thesis
    using w1 l i k x y d1 d2 by (simp add: f o c)
qed

end
